theory Spec2Isabelle
  imports Complex_Main
begin

section \<open>The horse race simulation of src/js/horse.js\<close>

text \<open>
  The class \<open>Horse\<close> is embedded function by function. JavaScript numbers are
  modelled as mathematical reals (lap counts and ranks as integers), so every
  statement below is about exact arithmetic: the rounding of IEEE doubles is
  outside the model, and so are \<open>NaN\<close> and the infinities, which the source can
  only produce by dividing by zero. The statements therefore speak about scenes
  in which the divisors of the source (the track length, the total race
  distance, stamina plus lap boost) are not zero; where a proof depends on the
  sign of a divisor, the theorem assumes it.

  Objects are mutable and shared: \<open>this.scene.horses\<close> holds the very objects
  whose methods run. The roster is therefore the store, and \<open>this\<close> is an index
  into it. \<open>Math.random()\<close> reads a global source: the scene record carries the
  sequence of values it will return and the number of values already drawn.
  Writes to \<open>console.log\<close> and to the display objects of the graphics library
  (sprite, labels, connecting line) are not modelled; the fields of the horse
  that refer to those objects are never reassigned by \<open>update\<close> or \<open>reset\<close>.
\<close>

subsection \<open>Data\<close>

record lapFactor =
  speedBoost :: real
  staminaBoost :: real

record horse =
  lane :: int
  name :: string
  color :: "nat option"
  baseSpeed :: real
  stamina :: real
  acceleration :: real
  luckFactor :: real
  currentSpeed :: real
  distance :: real
  currentLap :: int
  finished :: bool
  finishTime :: "real option"
  position :: "int option"
  catchUpFactor :: real
  leadHandicap :: real
  nextEventTime :: real
  eventDuration :: real
  currentEvent :: "string option"
  eventMultiplier :: real
  momentum :: real
  lapFactors :: "lapFactor list"
  laneOffset :: real
  legMovement :: real

text \<open>
  The scene is the host object \<open>this.scene\<close>; its class is not part of the
  sources, so the fields the horse reads are taken as given. \<open>horseFinished\<close>
  records the calls \<open>this.scene.horseFinished(this)\<close> in order (the roster index
  of the caller); \<open>random\<close> and \<open>drawn\<close> are the source of \<open>Math.random()\<close>.
\<close>

record scene =
  totalLaps :: int
  trackLength :: real
  totalRaceDistance :: real
  trackWidth :: real
  trackHeight :: real
  numHorses :: int
  raceStartTime :: "real option"
  raceInProgress :: bool
  horses :: "horse list"
  horseFinished :: "nat list"
  random :: "nat \<Rightarrow> real"
  drawn :: nat

subsection \<open>Access to the store and to the random source\<close>

definition self :: "nat \<Rightarrow> scene \<Rightarrow> horse" where
  "self i w = horses w ! i"

definition modify :: "nat \<Rightarrow> (horse \<Rightarrow> horse) \<Rightarrow> scene \<Rightarrow> scene" where
  "modify i f w = w\<lparr>horses := (horses w)[i := f (horses w ! i)]\<rparr>"

definition Math_random :: "scene \<Rightarrow> real \<times> scene" where
  "Math_random w = (random w (drawn w), w\<lparr>drawn := Suc (drawn w)\<rparr>)"

text \<open>\<open>Math.random()\<close> returns a value in \<open>[0, 1)\<close>.\<close>

definition random_ok :: "scene \<Rightarrow> bool" where
  "random_ok w = (\<forall>n. 0 \<le> random w n \<and> random w n < 1)"

text \<open>A JavaScript string or \<open>null\<close> used as a condition: \<open>null\<close> and the empty
  string are falsy.\<close>

definition truthy :: "string option \<Rightarrow> bool" where
  "truthy e = (case e of None \<Rightarrow> False | Some s \<Rightarrow> s \<noteq> [])"

text \<open>The remainder operator \<open>%\<close> on numbers: the quotient is truncated towards
  zero, so the result has the sign of the dividend.\<close>

definition js_rem :: "real \<Rightarrow> real \<Rightarrow> real" where
  "js_rem x y = x - y * of_int (if 0 \<le> x / y then \<lfloor>x / y\<rfloor> else \<lceil>x / y\<rceil>)"

text \<open>\<open>Array.prototype.findIndex\<close>: the index of the first element that
  satisfies the test, \<open>-1\<close> when there is none.\<close>

fun findIndex :: "('a \<Rightarrow> bool) \<Rightarrow> 'a list \<Rightarrow> int" where
  "findIndex P [] = - 1"
| "findIndex P (x # xs) =
     (if P x then 0
      else (let k = findIndex P xs in if k < 0 then - 1 else k + 1))"

text \<open>\<open>this.scene.horses.filter(h => !h.finished)\<close>, as roster indices.\<close>

definition activeHorses :: "scene \<Rightarrow> nat list" where
  "activeHorses w = filter (\<lambda>j. \<not> finished (horses w ! j)) [0..<length (horses w)]"

text \<open>\<open>[...activeHorses].sort((a, b) => b.distance - a.distance)\<close>: the sort of
  the language is stable, and the comparator orders by distance, greatest first.\<close>

definition sortedHorses :: "scene \<Rightarrow> nat list" where
  "sortedHorses w = sort_key (\<lambda>j. - distance (horses w ! j)) (activeHorses w)"

subsection \<open>handleRaceEvents (lines 298-364)\<close>

definition handleRaceEvents :: "real \<Rightarrow> real \<Rightarrow> nat \<Rightarrow> scene \<Rightarrow> scene" where
  "handleRaceEvents time delta i w =
     (case raceStartTime w of
        None \<Rightarrow> w
      | Some start \<Rightarrow>
          if start = 0 \<or> \<not> (time > start + nextEventTime (self i w)) then w
          else if truthy (currentEvent (self i w)) then
            (let w1 = modify i (\<lambda>h. h\<lparr>eventDuration := eventDuration h - delta\<rparr>) w in
             if eventDuration (self i w1) \<le> 0 then
               (let (r, w2) = Math_random w1 in
                modify i (\<lambda>h. h\<lparr>currentEvent := None, eventMultiplier := 1.0,
                    nextEventTime := time - start + 5000 + r * 7000\<rparr>) w2)
             else w1)
          else
            (let (eventChance, w1) = Math_random w in
             if eventChance < 0.12 then
               (let (r, w2) = Math_random w1 in
                modify i (\<lambda>h. h\<lparr>currentEvent := Some ''burst of speed'',
                    eventMultiplier := 1.25, eventDuration := 800 + r * 1200\<rparr>) w2)
             else if eventChance < 0.24 then
               (let (r, w2) = Math_random w1 in
                modify i (\<lambda>h. h\<lparr>currentEvent := Some ''slight slowdown'',
                    eventMultiplier := 0.85, eventDuration := 800 + r * 1200\<rparr>) w2)
             else if eventChance < 0.36 then
               (let (c, w2) = Math_random w1;
                    (r, w3) = Math_random w2;
                    w4 = (if c < 0.5
                          then modify i (\<lambda>h. h\<lparr>momentum := momentum h + (0.15 + r * 0.1)\<rparr>) w3
                          else modify i (\<lambda>h. h\<lparr>momentum := momentum h - (0.1 + r * 0.15)\<rparr>) w3);
                    (r', w5) = Math_random w4 in
                modify i (\<lambda>h. h\<lparr>nextEventTime := time - start + 5000 + r' * 7000\<rparr>) w5)
             else if eventChance < 0.42 then
               (let (r, w2) = Math_random w1 in
                if catchUpFactor (self i w1) > 0.2 then
                  modify i (\<lambda>h. h\<lparr>currentEvent := Some ''comeback effort'',
                      eventMultiplier := 1.35, eventDuration := 1000 + r * 1000\<rparr>) w2
                else
                  modify i (\<lambda>h. h\<lparr>nextEventTime := time - start + 4000 + r * 6000\<rparr>) w2)
             else if eventChance < 0.48 then
               (let (r, w2) = Math_random w1 in
                modify i (\<lambda>h. h\<lparr>currentEvent := Some ''brief fatigue'',
                    eventMultiplier := 0.8, eventDuration := 1000 + r * 1000\<rparr>) w2)
             else
               (let (r, w2) = Math_random w1 in
                modify i (\<lambda>h. h\<lparr>nextEventTime := time - start + 4000 + r * 6000\<rparr>) w2)))"

subsection \<open>updateRacePositioningFactors (lines 366-423)\<close>

definition updateRacePositioningFactors :: "nat \<Rightarrow> scene \<Rightarrow> scene" where
  "updateRacePositioningFactors i w =
     (if \<not> raceInProgress w \<or> finished (self i w) then w
      else if length (activeHorses w) \<le> 1 then w
      else
        (let sorted = sortedHorses w;
             pos = findIndex (\<lambda>j. j = i) sorted in
         if pos > 0 then
           (let leader = sorted ! 0;
                distanceBehind = distance (horses w ! leader) - distance (self i w);
                percentBehind = distanceBehind / trackLength w;
                positionFactor = min 0.25 (0.03 * of_int pos);
                distanceFactor = min 0.25 (percentBehind * 1.5);
                (r, w1) = Math_random w;
                randomBoost = r * 0.1;
                w2 = modify i (\<lambda>h. h\<lparr>catchUpFactor :=
                        positionFactor + distanceFactor + randomBoost\<rparr>) w1;
                w3 = (if pos = int (length sorted) - 1
                      then modify i (\<lambda>h. h\<lparr>catchUpFactor := catchUpFactor h + 0.15\<rparr>) w2
                      else w2);
                (c, w4) = Math_random w3 in
            if c < 0.02 \<and> of_int pos > real (length sorted) / 2
            then modify i (\<lambda>h. h\<lparr>momentum := momentum h + 0.2\<rparr>) w4
            else w4)
         else
           (let secondPlace = sorted ! 1;
                leadDistance = distance (self i w) - distance (horses w ! secondPlace);
                percentAhead = leadDistance / trackLength w;
                w1 = modify i (\<lambda>h. h\<lparr>leadHandicap := min 0.3 (percentAhead * 2.0)\<rparr>) w;
                (c, w2) = Math_random w1;
                w3 = (if c < 0.05 \<and> percentAhead > 0.03
                      then modify i (\<lambda>h. h\<lparr>momentum := momentum h - 0.1\<rparr>) w2
                      else w2) in
            modify i (\<lambda>h. h\<lparr>catchUpFactor := 0\<rparr>) w3)))"

subsection \<open>applyFinalLapBalancing (lines 425-465)\<close>

definition applyFinalLapBalancing :: "nat \<Rightarrow> scene \<Rightarrow> scene" where
  "applyFinalLapBalancing i w =
     (if length (activeHorses w) \<le> 1 then w
      else
        (let sorted = sortedHorses w;
             pos = findIndex (\<lambda>j. j = i) sorted;
             totalHorses = length sorted in
         if pos = 0 then
           (let secondPlace = sorted ! 1;
                leadDistance = distance (self i w) - distance (horses w ! secondPlace) in
            if leadDistance > trackLength w * 0.05
            then modify i (\<lambda>h. h\<lparr>momentum := momentum h - 0.1\<rparr>) w
            else w)
         else
           (let boostFactor = min (0.1 + (of_int pos / real totalHorses) * 0.15) 0.25;
                w1 = modify i (\<lambda>h. h\<lparr>momentum := momentum h + boostFactor\<rparr>) w in
            if pos = int totalHorses - 1
            then modify i (\<lambda>h. h\<lparr>momentum := momentum h + 0.1\<rparr>) w1
            else w1)))"

subsection \<open>finishRace (lines 515-520)\<close>

definition finishRace :: "real \<Rightarrow> nat \<Rightarrow> scene \<Rightarrow> scene" where
  "finishRace time i w =
     (let w1 = modify i (\<lambda>h. h\<lparr>finished := True, finishTime := Some time\<rparr>) w in
      w1\<lparr>horseFinished := horseFinished w1 @ [i]\<rparr>)"

subsection \<open>update (lines 154-271)\<close>

text \<open>Lines 162-179: the lap counter, the surge at a lap change and the
  balancing on entering the last lap.\<close>

definition startLap :: "nat \<Rightarrow> scene \<Rightarrow> scene" where
  "startLap i w =
     (let previousLap = currentLap (self i w);
          w1 = modify i (\<lambda>h. h\<lparr>currentLap :=
                  min (totalLaps w) (\<lfloor>distance h / trackLength w\<rfloor> + 1)\<rparr>) w in
      if currentLap (self i w1) > previousLap then
        (let (c, w2) = Math_random w1;
             w3 = (if c < 0.3
                   then (let (r, w') = Math_random w2 in
                         modify i (\<lambda>h. h\<lparr>momentum := momentum h + r * 0.15\<rparr>) w')
                   else w2) in
         if currentLap (self i w3) = totalLaps w3 then applyFinalLapBalancing i w3 else w3)
      else w1)"

text \<open>Line 189: \<open>this.lapFactors[lapIndex]\<close> is \<open>undefined\<close> (here \<open>None\<close>) when the
  index is not an index of the array; the source then falls back on a pair of
  zeros.\<close>

definition lookupLapFactor :: "lapFactor list \<Rightarrow> int \<Rightarrow> lapFactor option" where
  "lookupLapFactor fs k = (if 0 \<le> k \<and> k < int (length fs) then Some (fs ! nat k) else None)"

definition lapFactorOf :: "horse \<Rightarrow> lapFactor" where
  "lapFactorOf h =
     (case lookupLapFactor (lapFactors h) (currentLap h - 1) of
        Some f \<Rightarrow> f
      | None \<Rightarrow> \<lparr>speedBoost = 0, staminaBoost = 0\<rparr>)"

text \<open>Lines 191-196.\<close>

definition decayMomentum :: "real \<Rightarrow> real" where
  "decayMomentum m = (if \<bar>m\<bar> > 0.01 then m * 0.995 else 0)"

text \<open>Lines 187-227: momentum decay, speed and the distance covered. These
  lines read and write the horse itself and the constants of the scene only, and
  draw one random number (line 203), passed here as \<open>r\<close>.\<close>

definition moveThis :: "real \<Rightarrow> real \<Rightarrow> scene \<Rightarrow> horse \<Rightarrow> horse" where
  "moveThis delta r w h =
     (let lapFactor = lapFactorOf h;
          h1 = h\<lparr>momentum := decayMomentum (momentum h)\<rparr>;
          raceProgress = distance h1 / totalRaceDistance w;
          staminaFactor = max 0.7
             (1 - raceProgress / (stamina h1 + staminaBoost lapFactor));
          instantRandomFactor = 1 + (r - 0.5) * (luckFactor h1 + 0.15);
          raceEventFactor = eventMultiplier h1;
          targetSpeed = baseSpeed h1 *
             (1 + speedBoost lapFactor + catchUpFactor h1 - leadHandicap h1 + momentum h1);
          h2 = (if currentSpeed h1 < targetSpeed then
                  (let accelerationBoost = 1 + catchUpFactor h1 in
                   h1\<lparr>currentSpeed := currentSpeed h1 +
                       acceleration h1 * accelerationBoost * (delta / 1000)\<rparr>)
                else if currentSpeed h1 > targetSpeed * 1.1 then
                  h1\<lparr>currentSpeed := currentSpeed h1 -
                       acceleration h1 * 0.5 * (delta / 1000)\<rparr>
                else h1);
          minRaceSpeed = 0.7 + catchUpFactor h2 * 1.5;
          h3 = h2\<lparr>currentSpeed := max minRaceSpeed (currentSpeed h2)\<rparr>;
          actualSpeed = currentSpeed h3 * staminaFactor * instantRandomFactor
             * raceEventFactor;
          speedScale = max 0.7 (min (trackWidth w) (trackHeight w) / 400) in
      h3\<lparr>distance := distance h3 + actualSpeed * (delta / 1000) * 80 * speedScale\<rparr>)"

definition moveHorse :: "real \<Rightarrow> nat \<Rightarrow> scene \<Rightarrow> scene" where
  "moveHorse delta i w =
     (let (r, w1) = Math_random w in modify i (moveThis delta r w1) w1)"

text \<open>Lines 229-270: the position within the lap, the running animation and
  the finish check.\<close>

definition finishWindow :: "scene \<Rightarrow> horse \<Rightarrow> bool" where
  "finishWindow w h =
     (let lapDistance = js_rem (distance h) (trackLength w);
          totalDistance = of_int (totalLaps w) * trackLength w in
      distance h \<ge> totalDistance \<and> lapDistance \<ge> 0 \<and> lapDistance \<le> 50)"

definition checkFinish :: "real \<Rightarrow> real \<Rightarrow> nat \<Rightarrow> scene \<Rightarrow> scene" where
  "checkFinish time delta i w =
     (let w1 = modify i (\<lambda>h. h\<lparr>legMovement := legMovement h + delta * 0.01\<rparr>) w in
      if \<not> finished (self i w1) \<and> finishWindow w1 (self i w1)
      then finishRace time i w1
      else w1)"

text \<open>The state in which line 191 finds the horse.\<close>

definition beforeMove :: "real \<Rightarrow> real \<Rightarrow> nat \<Rightarrow> scene \<Rightarrow> scene" where
  "beforeMove time delta i w =
     updateRacePositioningFactors i (handleRaceEvents time delta i (startLap i w))"

definition update :: "real \<Rightarrow> real \<Rightarrow> nat \<Rightarrow> scene \<Rightarrow> scene" where
  "update time delta i w =
     (if finished (self i w) then w
      else checkFinish time delta i (moveHorse delta i (beforeMove time delta i w)))"

text \<open>The race controller calls \<open>update\<close> once per frame. \<open>ticks\<close> is a run of
  such calls for agent \<open>i\<close>, each with its time and elapsed time. A run is
  undisturbed when every call finds the agent racing and none of the methods
  called before line 191 changes its momentum (no surge, no event, no nudge of
  the positioning service).\<close>

fun ticks :: "(real \<times> real) list \<Rightarrow> nat \<Rightarrow> scene \<Rightarrow> scene" where
  "ticks [] i w = w"
| "ticks ((time, delta) # fs) i w = ticks fs i (update time delta i w)"

fun undisturbed :: "(real \<times> real) list \<Rightarrow> nat \<Rightarrow> scene \<Rightarrow> bool" where
  "undisturbed [] i w = True"
| "undisturbed ((time, delta) # fs) i w =
     (\<not> finished (self i w)
      \<and> momentum (self i (beforeMove time delta i w)) = momentum (self i w)
      \<and> undisturbed fs i (update time delta i w))"

subsection \<open>reset (lines 467-507)\<close>

definition reset :: "nat \<Rightarrow> scene \<Rightarrow> scene" where
  "reset i w =
     (let w1 = modify i (\<lambda>h. h\<lparr>currentSpeed := 0, distance := 0, currentLap := 1,
                  finished := False, finishTime := None, position := None,
                  catchUpFactor := 0, leadHandicap := 0\<rparr>) w;
          referenceIndex = \<lfloor>real_of_int (numHorses w1) / 2\<rfloor> - 1;
          laneWidth = min (trackWidth w1) (trackHeight w1) / 300;
          w2 = modify i (\<lambda>h. h\<lparr>laneOffset :=
                  of_int (numHorses w1 - 1 - referenceIndex) * laneWidth\<rparr>) w1;
          w3 = modify i (\<lambda>h. h\<lparr>laneOffset := laneOffset h +
                  of_int (lane h - referenceIndex) * (laneWidth * 0.1)\<rparr>) w2 in
      modify i (\<lambda>h. h\<lparr>legMovement := 0\<rparr>) w3)"

subsection \<open>The constructor (lines 6-71)\<close>

text \<open>Lines 48-54: one pair of boosts per lap.\<close>

fun makeLapFactors :: "nat \<Rightarrow> scene \<Rightarrow> lapFactor list \<times> scene" where
  "makeLapFactors 0 w = ([], w)"
| "makeLapFactors (Suc n) w =
     (let (a, w1) = Math_random w;
          (b, w2) = Math_random w1;
          (fs, w3) = makeLapFactors n w2 in
      (\<lparr>speedBoost = a * 0.2 - 0.1, staminaBoost = b * 0.16 - 0.08\<rparr> # fs, w3))"

text \<open>\<open>getRandomColor\<close> (lines 73-90). Reading the palette outside its indices
  gives \<open>undefined\<close>, here \<open>None\<close>.\<close>

definition colors :: "nat list" where
  "colors = [16711680, 65280, 255, 16776960, 16711935, 65535,
             16753920, 8388736, 32768, 8388608, 8421376, 32896]"

definition getRandomColor :: "scene \<Rightarrow> nat option \<times> scene" where
  "getRandomColor w =
     (let (r, w1) = Math_random w;
          k = \<lfloor>r * real (length colors)\<rfloor> in
      (if 0 \<le> k \<and> k < int (length colors) then Some (colors ! nat k) else None, w1))"

text \<open>\<open>nameGenerator.generateName()\<close>: the generator is a global object that is
  not part of the sources. It is a parameter here: from the random source and
  the number of values drawn so far it gives a name and the number of values
  drawn afterwards.\<close>

definition generatedName ::
  "((nat \<Rightarrow> real) \<Rightarrow> nat \<Rightarrow> string \<times> nat) \<Rightarrow> scene \<Rightarrow> string \<times> scene" where
  "generatedName generateName w =
     (let (s, n) = generateName (random w) (drawn w) in (s, w\<lparr>drawn := n\<rparr>))"

text \<open>Lines 12-67 of the constructor, for the name and the colour that lines 9
  and 10 have settled.\<close>

definition initHorse :: "int \<Rightarrow> string \<Rightarrow> nat option \<Rightarrow> scene \<Rightarrow> horse \<times> scene" where
  "initHorse laneIndex thisName thisColor w =
     (let (r1, w1) = Math_random w;
          (r2, w2) = Math_random w1;
          (r3, w3) = Math_random w2;
          (r4, w4) = Math_random w3;
          (r5, w5) = Math_random w4;
          (fs, w6) = makeLapFactors (nat (totalLaps w5)) w5;
          referenceIndex = \<lfloor>real_of_int (numHorses w6) / 2\<rfloor> - 1;
          laneWidth = min (trackWidth w6) (trackHeight w6) / 300 in
      (\<lparr>lane = laneIndex, name = thisName, color = thisColor,
        baseSpeed = 1.9 + r1 * 0.06 - 0.03,
        stamina = 0.85 + r2 * 0.06 - 0.03,
        acceleration = 0.3 + r3 * 0.06 - 0.03,
        luckFactor = r4 * 0.2 + 0.05,
        currentSpeed = 0, distance = 0, currentLap = 1, finished = False,
        finishTime = None, position = None,
        catchUpFactor = 0, leadHandicap = 0,
        nextEventTime = 3000 + r5 * 4000, eventDuration = 0,
        currentEvent = None, eventMultiplier = 1.0, momentum = 0,
        lapFactors = fs,
        laneOffset = of_int (numHorses w6 - 1 - referenceIndex) * laneWidth
                     + of_int (laneIndex - referenceIndex) * (laneWidth * 0.1),
        legMovement = 0\<rparr>, w6))"

text \<open>The constructor. A name or colour that is missing (\<open>None\<close>) or falsy (the
  empty string, the number 0) is replaced as lines 9 and 10 do. The constructor
  returns the new object; adding it to the roster is left to the caller.\<close>

definition resolveName ::
  "((nat \<Rightarrow> real) \<Rightarrow> nat \<Rightarrow> string \<times> nat) \<Rightarrow> string option \<Rightarrow> scene \<Rightarrow> string \<times> scene" where
  "resolveName generateName nm w =
     (case nm of
        None \<Rightarrow> generatedName generateName w
      | Some s \<Rightarrow> if s \<noteq> [] then (s, w) else generatedName generateName w)"

definition resolveColor :: "nat option \<Rightarrow> scene \<Rightarrow> nat option \<times> scene" where
  "resolveColor col w =
     (case col of
        None \<Rightarrow> getRandomColor w
      | Some c \<Rightarrow> if c \<noteq> 0 then (Some c, w) else getRandomColor w)"

definition Horse ::
  "((nat \<Rightarrow> real) \<Rightarrow> nat \<Rightarrow> string \<times> nat) \<Rightarrow> int \<Rightarrow> string option \<Rightarrow> nat option
     \<Rightarrow> scene \<Rightarrow> horse \<times> scene" where
  "Horse generateName laneIndex nm col w =
     (let (thisName, wa) = resolveName generateName nm w;
          (thisColor, wb) = resolveColor col wa in
      initHorse laneIndex thisName thisColor wb)"

subsection \<open>What a method leaves unchanged\<close>

text \<open>A method that works on horse \<open>i\<close> changes some fields of that horse and
  draws random numbers. \<open>keptBy e i w\<close> blanks exactly that: it overwrites the
  fields named by \<open>e\<close> in horse \<open>i\<close> and forgets how many numbers were drawn.
  Two scenes with the same \<open>keptBy\<close> image agree on everything else.\<close>

definition keptBy :: "(horse \<Rightarrow> horse) \<Rightarrow> nat \<Rightarrow> scene \<Rightarrow> scene" where
  "keptBy e i w = modify i e (w\<lparr>drawn := 0\<rparr>)"

definition eraseMomentum :: "horse \<Rightarrow> horse" where
  "eraseMomentum h = h\<lparr>momentum := 0\<rparr>"

definition eraseLap :: "horse \<Rightarrow> horse" where
  "eraseLap h = h\<lparr>currentLap := 0, momentum := 0\<rparr>"

definition eraseEvents :: "horse \<Rightarrow> horse" where
  "eraseEvents h = h\<lparr>nextEventTime := 0, eventDuration := 0, currentEvent := None,
      eventMultiplier := 0, momentum := 0\<rparr>"

definition erasePositioning :: "horse \<Rightarrow> horse" where
  "erasePositioning h = h\<lparr>catchUpFactor := 0, leadHandicap := 0, momentum := 0\<rparr>"

definition eraseMotion :: "horse \<Rightarrow> horse" where
  "eraseMotion h = h\<lparr>currentSpeed := 0, distance := 0, momentum := 0\<rparr>"

definition eraseFinish :: "horse \<Rightarrow> horse" where
  "eraseFinish h = h\<lparr>finished := False, finishTime := None, legMovement := 0\<rparr>"

subsection \<open>Concrete scenes\<close>

definition exampleHorse :: "real \<Rightarrow> horse" where
  "exampleHorse d =
     \<lparr>lane = 0, name = ''Comet'', color = Some 255,
      baseSpeed = 1.9, stamina = 0.85, acceleration = 0.3, luckFactor = 0.15,
      currentSpeed = 1, distance = d, currentLap = 1, finished = False,
      finishTime = None, position = None, catchUpFactor = 0, leadHandicap = 0,
      nextEventTime = 5000, eventDuration = 0, currentEvent = None,
      eventMultiplier = 1, momentum = 0,
      lapFactors = [\<lparr>speedBoost = 0.05, staminaBoost = 0.02\<rparr>],
      laneOffset = 0, legMovement = 0\<rparr>"

text \<open>One lap of length 1000, the race started at time 1000, and a random
  source that always returns one half.\<close>

definition exampleScene :: "horse list \<Rightarrow> scene" where
  "exampleScene hs =
     \<lparr>totalLaps = 1, trackLength = 1000, totalRaceDistance = 1000,
      trackWidth = 800, trackHeight = 600, numHorses = int (length hs),
      raceStartTime = Some 1000, raceInProgress = True, horses = hs,
      horseFinished = [], random = (\<lambda>n. 1 / 2), drawn = 0\<rparr>"

section \<open>Properties\<close>

subsection \<open>The store\<close>

lemma self_modify:
  "self i (modify i f w) = (if i < length (horses w) then f (self i w) else self i w)"
  by (simp add: self_def modify_def list_update_beyond)

lemma list_update_erase:
  "e (f (xs ! i)) = e (xs ! i) \<Longrightarrow>
     xs[i := e (xs[i := f (xs ! i)] ! i)] = xs[i := e (xs ! i)]"
  by (cases "i < length xs") (simp_all add: list_update_beyond)

lemma keptBy_modify:
  "(\<And>h. e (f h) = e h) \<Longrightarrow> keptBy e i (modify i f w) = keptBy e i w"
  by (simp add: keptBy_def modify_def list_update_erase)

lemma keptBy_drawn: "keptBy e i (w\<lparr>drawn := n\<rparr>) = keptBy e i w"
  by (simp add: keptBy_def modify_def)

lemma keptBy_scene:
  assumes "keptBy e i w' = keptBy e i w"
  shows "totalLaps w' = totalLaps w" and "trackLength w' = trackLength w"
    and "totalRaceDistance w' = totalRaceDistance w"
    and "trackWidth w' = trackWidth w" and "trackHeight w' = trackHeight w"
    and "numHorses w' = numHorses w" and "raceStartTime w' = raceStartTime w"
    and "raceInProgress w' = raceInProgress w"
    and "horseFinished w' = horseFinished w" and "random w' = random w"
    and "length (horses w') = length (horses w)"
proof -
  have sel: "f (keptBy e i w') = f (keptBy e i w)" for f :: "scene \<Rightarrow> 'b"
    using assms by simp
  show "totalLaps w' = totalLaps w"
    using sel [of totalLaps] by (simp add: keptBy_def modify_def)
  show "trackLength w' = trackLength w"
    using sel [of trackLength] by (simp add: keptBy_def modify_def)
  show "totalRaceDistance w' = totalRaceDistance w"
    using sel [of totalRaceDistance] by (simp add: keptBy_def modify_def)
  show "trackWidth w' = trackWidth w"
    using sel [of trackWidth] by (simp add: keptBy_def modify_def)
  show "trackHeight w' = trackHeight w"
    using sel [of trackHeight] by (simp add: keptBy_def modify_def)
  show "numHorses w' = numHorses w"
    using sel [of numHorses] by (simp add: keptBy_def modify_def)
  show "raceStartTime w' = raceStartTime w"
    using sel [of raceStartTime] by (simp add: keptBy_def modify_def)
  show "raceInProgress w' = raceInProgress w"
    using sel [of raceInProgress] by (simp add: keptBy_def modify_def)
  show "horseFinished w' = horseFinished w"
    using sel [of horseFinished] by (simp add: keptBy_def modify_def)
  show "random w' = random w"
    using sel [of random] by (simp add: keptBy_def modify_def)
  show "length (horses w') = length (horses w)"
    using sel [of "\<lambda>v. length (horses v)"] by (simp add: keptBy_def modify_def)
qed

lemma keptBy_self:
  assumes "keptBy e i w' = keptBy e i w" and "i < length (horses w)"
  shows "e (self i w') = e (self i w)"
proof -
  have len: "length (horses w') = length (horses w)"
    using assms(1) by (rule keptBy_scene)
  have "horses (keptBy e i w') ! i = horses (keptBy e i w) ! i"
    using assms(1) by simp
  then show ?thesis
    using assms(2) len by (simp add: keptBy_def modify_def self_def)
qed

subsection \<open>Frames of the methods\<close>

lemma handleRaceEvents_kept:
  "keptBy eraseEvents i (handleRaceEvents time delta i w) = keptBy eraseEvents i w"
  by (simp add: handleRaceEvents_def Let_def keptBy_modify keptBy_drawn
      eraseEvents_def Math_random_def split: option.split)

lemma updateRacePositioningFactors_kept:
  "keptBy erasePositioning i (updateRacePositioningFactors i w) = keptBy erasePositioning i w"
  by (simp add: updateRacePositioningFactors_def Let_def keptBy_modify keptBy_drawn
      erasePositioning_def Math_random_def)

lemma applyFinalLapBalancing_kept:
  "keptBy eraseLap i (applyFinalLapBalancing i w) = keptBy eraseLap i w"
  by (simp add: applyFinalLapBalancing_def Let_def keptBy_modify eraseLap_def)

lemma startLap_kept:
  "keptBy eraseLap i (startLap i w) = keptBy eraseLap i w"
  by (simp add: startLap_def Let_def keptBy_modify applyFinalLapBalancing_kept
      keptBy_drawn eraseLap_def Math_random_def)

lemma moveThis_kept: "eraseMotion (moveThis delta r w h) = eraseMotion h"
  by (simp add: moveThis_def Let_def eraseMotion_def)

lemma moveHorse_kept:
  "keptBy eraseMotion i (moveHorse delta i w) = keptBy eraseMotion i w"
  by (simp add: moveHorse_def keptBy_modify keptBy_drawn moveThis_kept Math_random_def)

lemma checkFinish_erased:
  "i < length (horses w) \<Longrightarrow>
     eraseFinish (self i (checkFinish time delta i w)) = eraseFinish (self i w)"
  by (simp add: checkFinish_def finishRace_def Let_def self_def modify_def eraseFinish_def)

text \<open>A field that none of the three methods before line 187 writes has the
  same value there as at the start of the tick.\<close>

lemma beforeMove_length:
  "length (horses (beforeMove time delta i w)) = length (horses w)"
  unfolding beforeMove_def
  using keptBy_scene(11) [OF updateRacePositioningFactors_kept]
    keptBy_scene(11) [OF handleRaceEvents_kept] keptBy_scene(11) [OF startLap_kept]
  by simp

lemma beforeMove_self:
  assumes "i < length (horses w)"
    and "\<And>h. f (eraseLap h) = f h" and "\<And>h. f (eraseEvents h) = f h"
    and "\<And>h. f (erasePositioning h) = f h"
  shows "f (self i (beforeMove time delta i w)) = f (self i w)"
proof -
  let ?w1 = "startLap i w"
  let ?w2 = "handleRaceEvents time delta i ?w1"
  let ?w3 = "updateRacePositioningFactors i ?w2"
  have "length (horses ?w1) = length (horses w)"
    by (rule keptBy_scene(11) [OF startLap_kept])
  then have l1: "i < length (horses ?w1)"
    using assms(1) by simp
  have "length (horses ?w2) = length (horses ?w1)"
    by (rule keptBy_scene(11) [OF handleRaceEvents_kept])
  then have l2: "i < length (horses ?w2)"
    using l1 by simp
  have "f (self i ?w1) = f (eraseLap (self i ?w1))"
    by (simp add: assms(2))
  also have "\<dots> = f (eraseLap (self i w))"
    using keptBy_self [OF startLap_kept assms(1)] by simp
  finally have s1: "f (self i ?w1) = f (self i w)"
    by (simp add: assms(2))
  have "f (self i ?w2) = f (eraseEvents (self i ?w2))"
    by (simp add: assms(3))
  also have "\<dots> = f (eraseEvents (self i ?w1))"
    using keptBy_self [OF handleRaceEvents_kept l1] by simp
  finally have s2: "f (self i ?w2) = f (self i ?w1)"
    by (simp add: assms(3))
  have "f (self i ?w3) = f (erasePositioning (self i ?w3))"
    by (simp add: assms(4))
  also have "\<dots> = f (erasePositioning (self i ?w2))"
    using keptBy_self [OF updateRacePositioningFactors_kept l2] by simp
  finally have s3: "f (self i ?w3) = f (self i ?w2)"
    by (simp add: assms(4))
  show ?thesis
    unfolding beforeMove_def using s1 s2 s3 by simp
qed

lemma beforeMove_scene:
  shows "totalLaps (beforeMove time delta i w) = totalLaps w"
    and "trackLength (beforeMove time delta i w) = trackLength w"
    and "totalRaceDistance (beforeMove time delta i w) = totalRaceDistance w"
    and "trackWidth (beforeMove time delta i w) = trackWidth w"
    and "trackHeight (beforeMove time delta i w) = trackHeight w"
    and "horseFinished (beforeMove time delta i w) = horseFinished w"
    and "random (beforeMove time delta i w) = random w"
  unfolding beforeMove_def
  using keptBy_scene [OF updateRacePositioningFactors_kept]
    keptBy_scene [OF handleRaceEvents_kept] keptBy_scene [OF startLap_kept]
  by simp_all

subsection \<open>The claims\<close>

text \<open>
  C9. Once an agent is finished, \<open>update\<close> returns at its first line: for any
  time and any elapsed time the whole scene, and so every field of the agent,
  is exactly as before.
\<close>

theorem update_finished_noop:
  "finished (self i w) \<Longrightarrow> update time delta i w = w"
  by (simp add: update_def)

theorem update_finished_noop_witness:
  "finished (self 0 (exampleScene [(exampleHorse 1010)\<lparr>finished := True, finishTime := Some 61000\<rparr>]))
   \<and> update 62000 16 0 (exampleScene [(exampleHorse 1010)\<lparr>finished := True, finishTime := Some 61000\<rparr>])
     = exampleScene [(exampleHorse 1010)\<lparr>finished := True, finishTime := Some 61000\<rparr>]"
proof -
  have fin: "finished (self 0 (exampleScene
      [(exampleHorse 1010)\<lparr>finished := True, finishTime := Some 61000\<rparr>]))"
    by (simp add: self_def exampleScene_def)
  show ?thesis
    using fin update_finished_noop [OF fin, of 62000 16] by simp
qed

text \<open>
  C8. \<open>reset\<close> leaves the innate attributes (base speed, stamina, acceleration,
  luck factor) and the whole sequence of lap factors of the agent as they were.
\<close>

theorem reset_keeps_attributes:
  "baseSpeed (self i (reset i w)) = baseSpeed (self i w)
   \<and> stamina (self i (reset i w)) = stamina (self i w)
   \<and> acceleration (self i (reset i w)) = acceleration (self i w)
   \<and> luckFactor (self i (reset i w)) = luckFactor (self i w)
   \<and> lapFactors (self i (reset i w)) = lapFactors (self i w)"
  by (cases "i < length (horses w)")
    (simp_all add: reset_def Let_def self_def modify_def list_update_beyond)

text \<open>
  C2 (the code departs from the claim). \<open>reset\<close> never assigns the momentum nor
  the event state. A horse that ends a race in the middle of a burst of speed,
  with momentum 0.2, keeps all five values through \<open>reset\<close>, while the
  constructor starts a race with momentum 0, no event, duration 0, multiplier 1
  and the next event between 3000 and 7000.
\<close>

theorem reset_keeps_momentum_and_event:
  "self 0 (reset 0 (exampleScene [(exampleHorse 1010)\<lparr>momentum := 0.2,
       currentEvent := Some ''burst of speed'', eventDuration := 500,
       eventMultiplier := 1.25, nextEventTime := 9000\<rparr>]))
   = (exampleHorse 0)\<lparr>currentSpeed := 0, momentum := 0.2,
       currentEvent := Some ''burst of speed'', eventDuration := 500,
       eventMultiplier := 1.25, nextEventTime := 9000,
       laneOffset := 22 / 10\<rparr>"
  by (simp add: reset_def Let_def self_def modify_def exampleScene_def exampleHorse_def)

text \<open>
  C1 (the code departs from the claim). The branch for a trailing agent never
  assigns \<open>leadHandicap\<close>. A horse that led with a handicap of 0.2 and is now
  second of two keeps the handicap after the positioning service has run, next
  to a catch-up factor of 0.305.
\<close>

theorem trailing_keeps_leadHandicap:
  "leadHandicap (self 1 (updateRacePositioningFactors 1
      (exampleScene [exampleHorse 950, (exampleHorse 900)\<lparr>leadHandicap := 0.2\<rparr>]))) = 0.2
   \<and> catchUpFactor (self 1 (updateRacePositioningFactors 1
      (exampleScene [exampleHorse 950, (exampleHorse 900)\<lparr>leadHandicap := 0.2\<rparr>]))) = 0.305
   \<and> findIndex (\<lambda>j. j = 1) (sortedHorses
      (exampleScene [exampleHorse 950, (exampleHorse 900)\<lparr>leadHandicap := 0.2\<rparr>])) = 1"
  by (simp add: updateRacePositioningFactors_def sortedHorses_def activeHorses_def
      exampleScene_def exampleHorse_def upt_rec self_def modify_def Math_random_def Let_def)

theorem trailing_keeps_leadHandicap_witness:
  "leadHandicap (self 1 (updateRacePositioningFactors 1
      (exampleScene [exampleHorse 950, (exampleHorse 900)\<lparr>leadHandicap := 0.2\<rparr>]))) \<noteq> 0
   \<and> catchUpFactor (self 1 (updateRacePositioningFactors 1
      (exampleScene [exampleHorse 950, (exampleHorse 900)\<lparr>leadHandicap := 0.2\<rparr>]))) \<noteq> 0"
  using trailing_keeps_leadHandicap by simp

subsection \<open>The tick of an agent that is still racing\<close>

lemma update_racing:
  "\<not> finished (self i w) \<Longrightarrow>
     update time delta i w = checkFinish time delta i (moveHorse delta i (beforeMove time delta i w))"
  by (simp add: update_def)

lemma self_moveHorse:
  "i < length (horses w) \<Longrightarrow>
     self i (moveHorse delta i w) =
       moveThis delta (random w (drawn w)) (w\<lparr>drawn := Suc (drawn w)\<rparr>) (self i w)"
  by (simp add: moveHorse_def Math_random_def self_def modify_def)

lemma moveHorse_scene:
  shows "totalLaps (moveHorse delta i w) = totalLaps w"
    and "trackLength (moveHorse delta i w) = trackLength w"
    and "horseFinished (moveHorse delta i w) = horseFinished w"
    and "length (horses (moveHorse delta i w)) = length (horses w)"
  by (simp_all add: moveHorse_def Math_random_def modify_def)

lemma moveThis_fields:
  shows "finished (moveThis delta r w h) = finished h"
    and "finishTime (moveThis delta r w h) = finishTime h"
    and "currentLap (moveThis delta r w h) = currentLap h"
    and "momentum (moveThis delta r w h) = decayMomentum (momentum h)"
  by (simp_all add: moveThis_def Let_def)

lemma moveThis_distance:
  "distance (moveThis delta r w h) =
     distance h + currentSpeed (moveThis delta r w h)
       * max 0.7 (1 - distance h / totalRaceDistance w / (stamina h + staminaBoost (lapFactorOf h)))
       * (1 + (r - 0.5) * (luckFactor h + 0.15)) * eventMultiplier h
       * (delta / 1000) * 80 * max 0.7 (min (trackWidth w) (trackHeight w) / 400)"
  by (simp add: moveThis_def Let_def)

lemma moveThis_minRaceSpeed:
  "0.7 + catchUpFactor h * 1.5 \<le> currentSpeed (moveThis delta r w h)"
  by (simp add: moveThis_def Let_def)

lemma checkFinish_self:
  assumes "i < length (horses w)" and "\<not> finished (self i w)"
  shows "finished (self i (checkFinish time delta i w)) = finishWindow w (self i w)"
    and "distance (self i (checkFinish time delta i w)) = distance (self i w)"
    and "currentLap (self i (checkFinish time delta i w)) = currentLap (self i w)"
    and "momentum (self i (checkFinish time delta i w)) = momentum (self i w)"
    and "finishTime (self i (checkFinish time delta i w)) =
           (if finishWindow w (self i w) then Some time else finishTime (self i w))"
    and "horseFinished (checkFinish time delta i w) =
           (if finishWindow w (self i w) then horseFinished w @ [i] else horseFinished w)"
  using assms
  by (simp_all add: checkFinish_def finishRace_def finishWindow_def Let_def self_def modify_def)

lemma checkFinish_scene:
  shows "totalLaps (checkFinish time delta i w) = totalLaps w"
    and "trackLength (checkFinish time delta i w) = trackLength w"
    and "length (horses (checkFinish time delta i w)) = length (horses w)"
  by (simp_all add: checkFinish_def finishRace_def Let_def modify_def)

lemma js_rem_whole: "y \<noteq> 0 \<Longrightarrow> js_rem (of_int n * y) y = 0"
  by (simp add: js_rem_def)

text \<open>The state of agent \<open>i\<close> after a tick, in terms of the state in which
  line 187 finds it.\<close>

lemma update_self:
  assumes "i < length (horses w)" and "\<not> finished (self i w)"
  shows "finished (self i (update time delta i w)) =
           finishWindow w (self i (update time delta i w))"
    and "finishTime (self i (update time delta i w)) =
           (if finished (self i (update time delta i w)) then Some time
            else finishTime (self i w))"
    and "horseFinished (update time delta i w) =
           (if finished (self i (update time delta i w)) then horseFinished w @ [i]
            else horseFinished w)"
    and "currentLap (self i (update time delta i w)) =
           currentLap (self i (beforeMove time delta i w))"
    and "momentum (self i (update time delta i w)) =
           decayMomentum (momentum (self i (beforeMove time delta i w)))"
    and "distance (self i (update time delta i w)) =
           distance (self i (moveHorse delta i (beforeMove time delta i w)))"
proof -
  let ?b = "beforeMove time delta i w"
  let ?m = "moveHorse delta i ?b"
  have lb: "i < length (horses ?b)"
    using assms(1) by (simp add: beforeMove_length)
  have lm: "i < length (horses ?m)"
    using lb by (simp add: moveHorse_scene)
  have fb: "finished (self i ?b) = finished (self i w)"
    by (rule beforeMove_self [OF assms(1)])
      (simp_all add: eraseLap_def eraseEvents_def erasePositioning_def)
  have tb: "finishTime (self i ?b) = finishTime (self i w)"
    by (rule beforeMove_self [OF assms(1)])
      (simp_all add: eraseLap_def eraseEvents_def erasePositioning_def)
  have fm: "\<not> finished (self i ?m)"
    using fb assms(2) by (simp add: self_moveHorse [OF lb] moveThis_fields)
  have tm: "finishTime (self i ?m) = finishTime (self i w)"
    using tb by (simp add: self_moveHorse [OF lb] moveThis_fields)
  have up: "update time delta i w = checkFinish time delta i ?m"
    using assms(2) by (rule update_racing)
  have win: "finishWindow ?m h = finishWindow w h" for h
    by (simp add: finishWindow_def moveHorse_scene beforeMove_scene)
  show "finished (self i (update time delta i w)) =
          finishWindow w (self i (update time delta i w))"
    unfolding up using checkFinish_self(1,2) [OF lm fm, of time delta]
    by (simp add: finishWindow_def moveHorse_scene beforeMove_scene)
  then show "finishTime (self i (update time delta i w)) =
           (if finished (self i (update time delta i w)) then Some time
            else finishTime (self i w))"
    unfolding up using checkFinish_self(1,5) [OF lm fm, of time delta] tm
    by simp
  show "horseFinished (update time delta i w) =
           (if finished (self i (update time delta i w)) then horseFinished w @ [i]
            else horseFinished w)"
    unfolding up using checkFinish_self(1,6) [OF lm fm, of time delta]
    by (simp add: moveHorse_scene beforeMove_scene)
  show "currentLap (self i (update time delta i w)) = currentLap (self i ?b)"
    unfolding up using checkFinish_self(3) [OF lm fm, of time delta]
    by (simp add: self_moveHorse [OF lb] moveThis_fields)
  show "momentum (self i (update time delta i w)) = decayMomentum (momentum (self i ?b))"
    unfolding up using checkFinish_self(4) [OF lm fm, of time delta]
    by (simp add: self_moveHorse [OF lb] moveThis_fields)
  show "distance (self i (update time delta i w)) = distance (self i ?m)"
    unfolding up using checkFinish_self(2) [OF lm fm, of time delta] by simp
qed

lemma update_distance_still:
  assumes "i < length (horses w)" and "\<not> finished (self i w)"
  shows "distance (self i (update time 0 i w)) = distance (self i w)"
proof -
  let ?b = "beforeMove time 0 i w"
  have lb: "i < length (horses ?b)"
    using assms(1) by (simp add: beforeMove_length)
  have "distance (self i ?b) = distance (self i w)"
    by (rule beforeMove_self [OF assms(1)])
      (simp_all add: eraseLap_def eraseEvents_def erasePositioning_def)
  then show ?thesis
    by (simp add: update_self(6) [OF assms] self_moveHorse [OF lb] moveThis_distance)
qed

text \<open>
  C3. A racing agent is finished after a tick exactly when its distance, after
  the accumulation of this tick, is at least \<open>totalLaps \<times> trackLength\<close> and its
  position within the lap lies in the window from 0 to 50. The finish time is
  written, and the controller is notified, in that tick and in no other: a tick
  changes \<open>finishTime\<close> only when the agent becomes finished, which needs the
  distance to have reached the total, and a finished agent is not touched again.
  So an agent exactly at the total distance finishes, and an agent past it whose
  position within the lap is 200 does not.
\<close>

theorem update_finish_check:
  assumes "i < length (horses w)"
  shows "(\<not> finished (self i w) \<longrightarrow>
            (finished (self i (update time delta i w)) \<longleftrightarrow>
               of_int (totalLaps w) * trackLength w \<le> distance (self i (update time delta i w))
               \<and> 0 \<le> js_rem (distance (self i (update time delta i w))) (trackLength w)
               \<and> js_rem (distance (self i (update time delta i w))) (trackLength w) \<le> 50))
       \<and> finishTime (self i (update time delta i w)) =
            (if \<not> finished (self i w) \<and> finished (self i (update time delta i w))
             then Some time else finishTime (self i w))
       \<and> horseFinished (update time delta i w) =
            (if \<not> finished (self i w) \<and> finished (self i (update time delta i w))
             then horseFinished w @ [i] else horseFinished w)
       \<and> (\<not> finished (self i w) \<and> 0 < trackLength w
            \<and> distance (self i (update time delta i w)) = of_int (totalLaps w) * trackLength w
            \<longrightarrow> finished (self i (update time delta i w)))
       \<and> (\<not> finished (self i w)
            \<and> of_int (totalLaps w) * trackLength w \<le> distance (self i (update time delta i w))
            \<and> js_rem (distance (self i (update time delta i w))) (trackLength w) = 200
            \<longrightarrow> \<not> finished (self i (update time delta i w)))"
proof (cases "finished (self i w)")
  case True
  then show ?thesis by (simp add: update_def)
next
  case False
  note racing = update_self [OF assms False, of time delta]
  have iff: "finished (self i (update time delta i w)) \<longleftrightarrow>
      of_int (totalLaps w) * trackLength w \<le> distance (self i (update time delta i w))
      \<and> 0 \<le> js_rem (distance (self i (update time delta i w))) (trackLength w)
      \<and> js_rem (distance (self i (update time delta i w))) (trackLength w) \<le> 50"
    using racing(1) by (simp add: finishWindow_def Let_def)
  have exact: "finished (self i (update time delta i w))"
    if "0 < trackLength w"
      and "distance (self i (update time delta i w)) = of_int (totalLaps w) * trackLength w"
    using that iff by (simp add: js_rem_whole)
  have outside: "\<not> finished (self i (update time delta i w))"
    if "js_rem (distance (self i (update time delta i w))) (trackLength w) = 200"
    using that iff by simp
  show ?thesis
    using False iff racing(2) racing(3) exact outside by simp
qed

theorem update_finish_check_witness:
  "finished (self 0 (update 5000 0 0 (exampleScene [exampleHorse 1000])))
   \<and> finishTime (self 0 (update 5000 0 0 (exampleScene [exampleHorse 1000]))) = Some 5000
   \<and> horseFinished (update 5000 0 0 (exampleScene [exampleHorse 1000])) = [0]
   \<and> \<not> finished (self 0 (update 5000 0 0 (exampleScene [exampleHorse 1200])))"
proof -
  have l1: "0 < length (horses (exampleScene [exampleHorse 1000]))"
    and l2: "0 < length (horses (exampleScene [exampleHorse 1200]))"
    by (simp_all add: exampleScene_def)
  have r1: "\<not> finished (self 0 (exampleScene [exampleHorse 1000]))"
    and r2: "\<not> finished (self 0 (exampleScene [exampleHorse 1200]))"
    by (simp_all add: exampleScene_def exampleHorse_def self_def)
  have d1: "distance (self 0 (update 5000 0 0 (exampleScene [exampleHorse 1000]))) = 1000"
    by (simp add: update_distance_still [OF l1 r1]) (simp add: exampleScene_def exampleHorse_def self_def)
  have d2: "distance (self 0 (update 5000 0 0 (exampleScene [exampleHorse 1200]))) = 1200"
    by (simp add: update_distance_still [OF l2 r2]) (simp add: exampleScene_def exampleHorse_def self_def)
  have c: "totalLaps (exampleScene hs) = 1" "trackLength (exampleScene hs) = 1000"
    "horseFinished (exampleScene hs) = []" for hs
    by (simp_all add: exampleScene_def)
  have rem: "js_rem 1200 1000 = 200" "js_rem 1000 1000 = 0"
    by (simp_all add: js_rem_def)
  show ?thesis
    using update_finish_check [OF l1, of 5000 0] update_finish_check [OF l2, of 5000 0]
      r1 r2
    by (simp add: d1 d2 c rem)
qed

subsection \<open>The lap counter\<close>

lemma applyFinalLapBalancing_momentum_only:
  "keptBy eraseMomentum i (applyFinalLapBalancing i w) = keptBy eraseMomentum i w"
  by (simp add: applyFinalLapBalancing_def Let_def keptBy_modify eraseMomentum_def)

lemma startLap_momentum_only:
  "keptBy eraseMomentum i (startLap i w) =
     keptBy eraseMomentum i (modify i (\<lambda>h. h\<lparr>currentLap :=
        min (totalLaps w) (\<lfloor>distance h / trackLength w\<rfloor> + 1)\<rparr>) w)"
  by (simp add: startLap_def Let_def keptBy_modify applyFinalLapBalancing_momentum_only
      keptBy_drawn eraseMomentum_def Math_random_def)

lemma startLap_currentLap:
  assumes "i < length (horses w)"
  shows "currentLap (self i (startLap i w)) =
           min (totalLaps w) (\<lfloor>distance (self i w) / trackLength w\<rfloor> + 1)"
proof -
  let ?w1 = "modify i (\<lambda>h. h\<lparr>currentLap :=
        min (totalLaps w) (\<lfloor>distance h / trackLength w\<rfloor> + 1)\<rparr>) w"
  have "i < length (horses ?w1)"
    using assms by (simp add: modify_def)
  then have "eraseMomentum (self i (startLap i w)) = eraseMomentum (self i ?w1)"
    by (rule keptBy_self [OF startLap_momentum_only])
  then have "currentLap (eraseMomentum (self i (startLap i w))) =
      currentLap (eraseMomentum (self i ?w1))"
    by simp
  then show ?thesis
    using assms by (simp add: eraseMomentum_def self_modify)
qed

lemma beforeMove_currentLap:
  assumes "i < length (horses w)"
  shows "currentLap (self i (beforeMove time delta i w)) =
           min (totalLaps w) (\<lfloor>distance (self i w) / trackLength w\<rfloor> + 1)"
proof -
  let ?w1 = "startLap i w"
  let ?w2 = "handleRaceEvents time delta i ?w1"
  have l1: "i < length (horses ?w1)"
    using assms keptBy_scene(11) [OF startLap_kept] by simp
  have l2: "i < length (horses ?w2)"
    using l1 keptBy_scene(11) [OF handleRaceEvents_kept] by simp
  have "currentLap (erasePositioning (self i (updateRacePositioningFactors i ?w2))) =
      currentLap (erasePositioning (self i ?w2))"
    using keptBy_self [OF updateRacePositioningFactors_kept l2] by simp
  moreover have "currentLap (eraseEvents (self i ?w2)) = currentLap (eraseEvents (self i ?w1))"
    using keptBy_self [OF handleRaceEvents_kept l1] by simp
  ultimately have "currentLap (self i (beforeMove time delta i w)) = currentLap (self i ?w1)"
    by (simp add: beforeMove_def erasePositioning_def eraseEvents_def)
  then show ?thesis
    by (simp add: startLap_currentLap [OF assms])
qed

lemma update_scene:
  shows "totalLaps (update time delta i w) = totalLaps w"
    and "trackLength (update time delta i w) = trackLength w"
    and "length (horses (update time delta i w)) = length (horses w)"
  by (simp_all add: update_def checkFinish_scene moveHorse_scene beforeMove_scene
      beforeMove_length)

lemma lap_mono:
  fixes a b t :: real
  assumes "0 < t" and "a \<le> b"
  shows "min n (\<lfloor>a / t\<rfloor> + 1) \<le> min n (\<lfloor>b / t\<rfloor> + 1)"
proof -
  have "a / t \<le> b / t"
    using assms by (simp add: divide_right_mono)
  then have "\<lfloor>a / t\<rfloor> \<le> \<lfloor>b / t\<rfloor>"
    by (rule floor_mono)
  then show ?thesis by simp
qed

text \<open>
  C5. A tick of a racing agent sets \<open>currentLap\<close> to
  \<open>min(totalLaps, floor(distance / trackLength) + 1)\<close>, for the distance at the
  start of the tick. The counter is therefore never above \<open>totalLaps\<close>, and when
  the tick did not decrease the distance, the next tick does not decrease the
  counter.
\<close>

theorem update_currentLap:
  assumes "i < length (horses w)" and "\<not> finished (self i w)" and "0 < trackLength w"
  shows "currentLap (self i (update time delta i w)) =
           min (totalLaps w) (\<lfloor>distance (self i w) / trackLength w\<rfloor> + 1)
       \<and> currentLap (self i (update time delta i w)) \<le> totalLaps w
       \<and> (distance (self i w) \<le> distance (self i (update time delta i w)) \<longrightarrow>
            currentLap (self i (update time delta i w))
              \<le> currentLap (self i (update time' delta' i (update time delta i w))))"
proof -
  let ?w1 = "update time delta i w"
  have lap1: "currentLap (self i ?w1) =
      min (totalLaps w) (\<lfloor>distance (self i w) / trackLength w\<rfloor> + 1)"
    by (simp add: update_self(4) [OF assms(1,2)] beforeMove_currentLap [OF assms(1)])
  have next_tick: "currentLap (self i ?w1) \<le> currentLap (self i (update time' delta' i ?w1))"
    if mono: "distance (self i w) \<le> distance (self i ?w1)"
  proof (cases "finished (self i ?w1)")
    case True
    then show ?thesis by (simp add: update_def)
  next
    case False
    have l1: "i < length (horses ?w1)"
      using assms(1) by (simp add: update_scene)
    have "currentLap (self i (update time' delta' i ?w1)) =
        min (totalLaps w) (\<lfloor>distance (self i ?w1) / trackLength w\<rfloor> + 1)"
      by (simp add: update_self(4) [OF l1 False] beforeMove_currentLap [OF l1] update_scene)
    then show ?thesis
      using lap1 lap_mono [OF assms(3) mono] by simp
  qed
  show ?thesis
    using lap1 next_tick by simp
qed

theorem update_currentLap_witness:
  "currentLap (self 0 (update 5000 0 0 ((exampleScene [exampleHorse 2500])\<lparr>totalLaps := 4\<rparr>))) = 3
   \<and> 3 \<le> currentLap (self 0 (update 5016 16 0
        (update 5000 0 0 ((exampleScene [exampleHorse 2500])\<lparr>totalLaps := 4\<rparr>))))"
proof -
  let ?w = "(exampleScene [exampleHorse 2500])\<lparr>totalLaps := 4\<rparr>"
  have l: "0 < length (horses ?w)"
    by (simp add: exampleScene_def)
  have r: "\<not> finished (self 0 ?w)"
    by (simp add: exampleScene_def exampleHorse_def self_def)
  have t: "0 < trackLength ?w"
    by (simp add: exampleScene_def)
  have d: "distance (self 0 ?w) \<le> distance (self 0 (update 5000 0 0 ?w))"
    by (simp add: update_distance_still [OF l r])
  have v: "distance (self 0 ?w) = 2500" "trackLength ?w = 1000" "totalLaps ?w = 4"
    by (simp_all add: exampleScene_def exampleHorse_def self_def)
  show ?thesis
    using update_currentLap [OF l r t, of 5000 0 5016 16] d
    by (simp add: v)
qed

subsection \<open>The lap factors\<close>

lemma makeLapFactors_length: "length (fst (makeLapFactors n w)) = n"
  by (induction n arbitrary: w) (simp_all add: Let_def case_prod_beta)

lemma resolve_scene:
  shows "totalLaps (snd (resolveName generateName nm w)) = totalLaps w"
    and "random (snd (resolveName generateName nm w)) = random w"
    and "totalLaps (snd (resolveColor col w)) = totalLaps w"
    and "random (snd (resolveColor col w)) = random w"
  by (simp_all add: resolveName_def resolveColor_def generatedName_def getRandomColor_def
      Math_random_def Let_def case_prod_beta split: option.split)

lemma initHorse_lapFactors:
  "length (lapFactors (fst (initHorse laneIndex thisName thisColor w))) = nat (totalLaps w)"
  by (simp add: initHorse_def Math_random_def Let_def case_prod_beta makeLapFactors_length)

lemma Horse_lapFactors:
  "length (lapFactors (fst (Horse generateName laneIndex nm col w))) = nat (totalLaps w)"
  by (simp add: Horse_def Let_def case_prod_beta initHorse_lapFactors resolve_scene)

text \<open>
  C10. The constructor gives every horse \<open>totalLaps\<close> lap factors. With at least
  one lap, a positive track length, a distance that is not negative and that
  many lap factors, the index \<open>currentLap - 1\<close> that line 188 computes is an
  index of \<open>lapFactors\<close>: the lookup of line 189 finds an entry, and the pair of
  zeros is not used.
\<close>

theorem lapIndex_in_bounds:
  assumes "i < length (horses w)" and "\<not> finished (self i w)"
    and "1 \<le> totalLaps w" and "0 < trackLength w" and "0 \<le> distance (self i w)"
    and "length (lapFactors (self i w)) = nat (totalLaps w)"
  shows "0 \<le> currentLap (self i (beforeMove time delta i w)) - 1
       \<and> currentLap (self i (beforeMove time delta i w)) - 1 < totalLaps w
       \<and> lookupLapFactor (lapFactors (self i (beforeMove time delta i w)))
            (currentLap (self i (beforeMove time delta i w)) - 1)
          = Some (lapFactors (self i w) ! nat (currentLap (self i (beforeMove time delta i w)) - 1))
       \<and> lapFactorOf (self i (beforeMove time delta i w))
          = lapFactors (self i w) ! nat (currentLap (self i (beforeMove time delta i w)) - 1)
       \<and> length (lapFactors (fst (Horse generateName laneIndex nm col w))) = nat (totalLaps w)"
proof -
  let ?h = "self i (beforeMove time delta i w)"
  have "0 \<le> distance (self i w) / trackLength w"
    using assms(4,5) by simp
  then have "0 \<le> \<lfloor>distance (self i w) / trackLength w\<rfloor>"
    by simp
  then have lo: "1 \<le> currentLap ?h" and hi: "currentLap ?h \<le> totalLaps w"
    using assms(3) by (simp_all add: beforeMove_currentLap [OF assms(1)])
  have fs: "lapFactors ?h = lapFactors (self i w)"
    by (rule beforeMove_self [OF assms(1)])
      (simp_all add: eraseLap_def eraseEvents_def erasePositioning_def)
  have look: "lookupLapFactor (lapFactors ?h) (currentLap ?h - 1) =
      Some (lapFactors (self i w) ! nat (currentLap ?h - 1))"
    using lo hi assms(6) by (simp add: lookupLapFactor_def fs)
  have made: "length (lapFactors (fst (Horse generateName laneIndex nm col w))) = nat (totalLaps w)"
    by (rule Horse_lapFactors)
  show ?thesis
    using lo hi look made by (simp add: lapFactorOf_def)
qed

theorem lapIndex_in_bounds_witness:
  "lapFactorOf (self 0 (beforeMove 5000 16 0 (exampleScene [exampleHorse 950])))
     = \<lparr>speedBoost = 0.05, staminaBoost = 0.02\<rparr>
   \<and> lookupLapFactor (lapFactors (self 0 (beforeMove 5000 16 0 (exampleScene [exampleHorse 950])))) 0
     = Some \<lparr>speedBoost = 0.05, staminaBoost = 0.02\<rparr>"
proof -
  let ?w = "exampleScene [exampleHorse 950]"
  have l: "0 < length (horses ?w)"
    by (simp add: exampleScene_def)
  have r: "\<not> finished (self 0 ?w)"
    by (simp add: exampleScene_def exampleHorse_def self_def)
  have n: "1 \<le> totalLaps ?w" and t: "0 < trackLength ?w"
    by (simp_all add: exampleScene_def)
  have d: "0 \<le> distance (self 0 ?w)"
    by (simp add: exampleScene_def exampleHorse_def self_def)
  have f: "length (lapFactors (self 0 ?w)) = nat (totalLaps ?w)"
    by (simp add: exampleScene_def exampleHorse_def self_def)
  have v: "totalLaps ?w = 1"
    "lapFactors (self 0 ?w) = [\<lparr>speedBoost = 0.05, staminaBoost = 0.02\<rparr>]"
    by (simp_all add: exampleScene_def exampleHorse_def self_def)
  have one: "c = 1" if "0 \<le> c - 1" and "c - 1 < 1" for c :: int
    using that by simp
  from lapIndex_in_bounds [OF l r n t d f, of 5000 16]
  have b: "0 \<le> currentLap (self 0 (beforeMove 5000 16 0 ?w)) - 1"
      "currentLap (self 0 (beforeMove 5000 16 0 ?w)) - 1 < 1"
    and k: "lookupLapFactor (lapFactors (self 0 (beforeMove 5000 16 0 ?w)))
            (currentLap (self 0 (beforeMove 5000 16 0 ?w)) - 1)
          = Some (lapFactors (self 0 ?w) ! nat (currentLap (self 0 (beforeMove 5000 16 0 ?w)) - 1))"
    and g: "lapFactorOf (self 0 (beforeMove 5000 16 0 ?w))
          = lapFactors (self 0 ?w) ! nat (currentLap (self 0 (beforeMove 5000 16 0 ?w)) - 1)"
    by (simp_all add: v(1))
  have c1: "currentLap (self 0 (beforeMove 5000 16 0 ?w)) = 1"
    using b by (rule one)
  show ?thesis
    using k g by (simp add: c1 v(2))
qed

subsection \<open>The ranking\<close>

lemma sorted_key_head:
  assumes "sorted (map f ys)" and "y \<in> set ys"
  shows "f (ys ! 0) \<le> f y"
  using assms by (cases ys) auto

lemma sortedHorses_leader:
  assumes "j \<in> set (activeHorses w)"
  shows "distance (horses w ! j) \<le> distance (horses w ! (sortedHorses w ! 0))"
proof -
  let ?f = "\<lambda>j. - distance (horses w ! j)"
  have "sorted (map ?f (sortedHorses w))"
    unfolding sortedHorses_def by (rule sorted_sort_key)
  moreover have "j \<in> set (sortedHorses w)"
    using assms by (simp add: sortedHorses_def)
  ultimately have "?f (sortedHorses w ! 0) \<le> ?f j"
    by (rule sorted_key_head)
  then show ?thesis by simp
qed

lemma self_active:
  "i < length (horses w) \<Longrightarrow> \<not> finished (self i w) \<Longrightarrow> i \<in> set (activeHorses w)"
  by (simp add: activeHorses_def self_def)

subsection \<open>The catch-up factor\<close>

lemma trailing_catchUpFactor:
  assumes "raceInProgress w" and "i < length (horses w)" and "\<not> finished (self i w)"
    and "2 \<le> length (activeHorses w)"
    and "0 < findIndex (\<lambda>j. j = i) (sortedHorses w)"
  shows "catchUpFactor (self i (updateRacePositioningFactors i w)) =
           min 0.25 (0.03 * of_int (findIndex (\<lambda>j. j = i) (sortedHorses w)))
         + min 0.25 ((distance (horses w ! (sortedHorses w ! 0)) - distance (self i w))
                       / trackLength w * 1.5)
         + random w (drawn w) * 0.1
         + (if findIndex (\<lambda>j. j = i) (sortedHorses w) = int (length (activeHorses w)) - 1
            then 0.15 else 0)"
  using assms
  by (simp add: updateRacePositioningFactors_def Let_def Math_random_def self_def modify_def
      sortedHorses_def)

lemma leading_catchUpFactor:
  assumes "raceInProgress w" and "i < length (horses w)" and "\<not> finished (self i w)"
    and "2 \<le> length (activeHorses w)"
    and "\<not> 0 < findIndex (\<lambda>j. j = i) (sortedHorses w)"
  shows "catchUpFactor (self i (updateRacePositioningFactors i w)) = 0"
  using assms
  by (simp add: updateRacePositioningFactors_def Let_def Math_random_def self_def modify_def)

lemma idle_catchUpFactor:
  assumes "\<not> raceInProgress w \<or> finished (self i w) \<or> length (activeHorses w) \<le> 1"
  shows "updateRacePositioningFactors i w = w"
  using assms by (auto simp add: updateRacePositioningFactors_def)

lemma catchUpFactor_nonneg_after_positioning:
  assumes "i < length (horses w)" and "0 < trackLength w" and "0 \<le> random w (drawn w)"
    and "0 \<le> catchUpFactor (self i w)"
  shows "0 \<le> catchUpFactor (self i (updateRacePositioningFactors i w))"
proof (cases "\<not> raceInProgress w \<or> finished (self i w) \<or> length (activeHorses w) \<le> 1")
  case True
  then show ?thesis
    using assms(4) by (simp add: idle_catchUpFactor)
next
  case False
  then have run: "raceInProgress w" "\<not> finished (self i w)" "2 \<le> length (activeHorses w)"
    by auto
  show ?thesis
  proof (cases "0 < findIndex (\<lambda>j. j = i) (sortedHorses w)")
    case True
    have "distance (self i w) \<le> distance (horses w ! (sortedHorses w ! 0))"
      using sortedHorses_leader [OF self_active [OF assms(1) run(2)]] by (simp add: self_def)
    then have "0 \<le> (distance (horses w ! (sortedHorses w ! 0)) - distance (self i w))
        / trackLength w * 1.5"
      using assms(2) by simp
    moreover have "0 \<le> 0.03 * real_of_int (findIndex (\<lambda>j. j = i) (sortedHorses w))"
      using True by simp
    ultimately show ?thesis
      using assms(3)
      by (simp add: trailing_catchUpFactor [OF run(1) assms(1) run(2,3) True])
  next
    case False
    then show ?thesis
      by (simp add: leading_catchUpFactor [OF run(1) assms(1) run(2,3)])
  qed
qed

text \<open>
  C4, as stated for every roster of at least two racing agents, fails when the
  race is not in progress: line 367 returns before anything is computed. With
  two racing agents at 950 and 900 on a track of length 1000 and the race not
  in progress, the second agent has rank 1 and the service leaves its
  \<open>catchUpFactor\<close> at 0, below the interval that starts at 0.255.
\<close>

theorem positioning_idle_counterexample:
  "\<not> raceInProgress ((exampleScene [exampleHorse 950, exampleHorse 900])\<lparr>raceInProgress := False\<rparr>)
   \<and> activeHorses ((exampleScene [exampleHorse 950, exampleHorse 900])\<lparr>raceInProgress := False\<rparr>)
       = [0, 1]
   \<and> sortedHorses ((exampleScene [exampleHorse 950, exampleHorse 900])\<lparr>raceInProgress := False\<rparr>)
       = [0, 1]
   \<and> catchUpFactor (self 1 (updateRacePositioningFactors 1
        ((exampleScene [exampleHorse 950, exampleHorse 900])\<lparr>raceInProgress := False\<rparr>))) = 0
   \<and> catchUpFactor (self 1 (updateRacePositioningFactors 1
        ((exampleScene [exampleHorse 950, exampleHorse 900])\<lparr>raceInProgress := False\<rparr>))) < 0.255"
  by (simp add: updateRacePositioningFactors_def sortedHorses_def activeHorses_def
      exampleScene_def exampleHorse_def upt_rec self_def)

text \<open>
  C4, amended. While the race is in progress, for a racing agent at rank \<open>r > 0\<close>
  among \<open>N \<ge> 2\<close> racing agents, the positioning service sets \<open>catchUpFactor\<close> to
  \<open>min(0.25, 0.03 r) + min(0.25, 1.5 percentBehind) + randomBoost\<close>, plus 0.15 when
  \<open>r = N - 1\<close>, where \<open>randomBoost\<close> is a tenth of the next random number and so
  lies in \<open>[0, 0.1)\<close>. For a track of length 1000 and two racing agents at 950
  and 900, the factor of the second lies in \<open>[0.255, 0.355)\<close>. Finished agents
  in the roster do not count for the rank nor for \<open>N\<close>.
\<close>

theorem positioning_catchUpFactor:
  assumes "raceInProgress w" and "i < length (horses w)" and "\<not> finished (self i w)"
    and "2 \<le> length (activeHorses w)"
    and "0 < findIndex (\<lambda>j. j = i) (sortedHorses w)"
    and "random_ok w"
  shows "catchUpFactor (self i (updateRacePositioningFactors i w)) =
           min 0.25 (0.03 * of_int (findIndex (\<lambda>j. j = i) (sortedHorses w)))
         + min 0.25 ((distance (horses w ! (sortedHorses w ! 0)) - distance (self i w))
                       / trackLength w * 1.5)
         + random w (drawn w) * 0.1
         + (if findIndex (\<lambda>j. j = i) (sortedHorses w) = int (length (activeHorses w)) - 1
            then 0.15 else 0)
       \<and> 0 \<le> random w (drawn w) * 0.1 \<and> random w (drawn w) * 0.1 < 0.1
       \<and> (\<forall>a b. horses w = [a, b] \<and> i = 1 \<and> distance a = 950 \<and> distance b = 900
              \<and> trackLength w = 1000 \<and> \<not> finished a \<longrightarrow>
            0.255 \<le> catchUpFactor (self i (updateRacePositioningFactors i w))
            \<and> catchUpFactor (self i (updateRacePositioningFactors i w)) < 0.355)"
proof -
  have r: "0 \<le> random w (drawn w)" "random w (drawn w) < 1"
    using assms(6) by (simp_all add: random_ok_def)
  note formula = trailing_catchUpFactor [OF assms(1-5)]
  have scenario: "0.255 \<le> catchUpFactor (self i (updateRacePositioningFactors i w))
      \<and> catchUpFactor (self i (updateRacePositioningFactors i w)) < 0.355"
    if "horses w = [a, b]" and "i = 1" and "distance a = 950" and "distance b = 900"
      and "trackLength w = 1000" and "\<not> finished a" for a b
  proof -
    have "\<not> finished b"
      using assms(3) that(1,2) by (simp add: self_def)
    then have s: "sortedHorses w = [0, 1]"
      using that by (simp add: sortedHorses_def activeHorses_def upt_rec)
    have n: "length (activeHorses w) = 2"
      using s length_sort [of "\<lambda>j. - distance (horses w ! j)" "activeHorses w"]
      by (simp add: sortedHorses_def)
    have "catchUpFactor (self i (updateRacePositioningFactors i w)) =
        0.03 + 0.075 + random w (drawn w) * 0.1 + 0.15"
      unfolding formula using that by (simp add: s n self_def)
    then show ?thesis
      using r by simp
  qed
  show ?thesis
    using formula r scenario by simp
qed

theorem positioning_catchUpFactor_witness:
  "catchUpFactor (self 1 (updateRacePositioningFactors 1
      (exampleScene [exampleHorse 950, exampleHorse 900]))) = 0.305
   \<and> findIndex (\<lambda>j. j = 1) (sortedHorses (exampleScene [exampleHorse 950, exampleHorse 900])) = 1
   \<and> catchUpFactor (self 2 (updateRacePositioningFactors 2
      (exampleScene [exampleHorse 950, (exampleHorse 1005)\<lparr>finished := True\<rparr>, exampleHorse 900])))
      = 0.305
   \<and> sortedHorses
      (exampleScene [exampleHorse 950, (exampleHorse 1005)\<lparr>finished := True\<rparr>, exampleHorse 900])
      = [0, 2]"
proof -
  let ?w = "exampleScene [exampleHorse 950, exampleHorse 900]"
  let ?v = "exampleScene [exampleHorse 950, (exampleHorse 1005)\<lparr>finished := True\<rparr>, exampleHorse 900]"
  have s: "sortedHorses ?w = [0, 1]" and a: "activeHorses ?w = [0, 1]"
    by (simp_all add: sortedHorses_def activeHorses_def exampleScene_def exampleHorse_def upt_rec)
  have h: "raceInProgress ?w" "1 < length (horses ?w)" "\<not> finished (self 1 ?w)"
    "2 \<le> length (activeHorses ?w)" "0 < findIndex (\<lambda>j. j = 1) (sortedHorses ?w)"
    by (simp_all add: s a) (simp_all add: exampleScene_def exampleHorse_def self_def)
  have ok: "random_ok ?w"
    by (simp add: random_ok_def exampleScene_def)
  have v: "distance (horses ?w ! 0) = 950" "distance (self (Suc 0) ?w) = 900" "trackLength ?w = 1000"
    "random ?w (drawn ?w) = 1 / 2"
    by (simp_all add: exampleScene_def exampleHorse_def self_def)
  have s': "sortedHorses ?v = [0, 2]" and a': "activeHorses ?v = [0, 2]"
    by (simp_all add: sortedHorses_def activeHorses_def exampleScene_def exampleHorse_def upt_rec)
  have h': "raceInProgress ?v" "2 < length (horses ?v)" "\<not> finished (self 2 ?v)"
    "2 \<le> length (activeHorses ?v)" "0 < findIndex (\<lambda>j. j = 2) (sortedHorses ?v)"
    by (simp_all add: s' a') (simp_all add: exampleScene_def exampleHorse_def self_def)
  have ok': "random_ok ?v"
    by (simp add: random_ok_def exampleScene_def)
  have v': "distance (horses ?v ! 0) = 950" "distance (self 2 ?v) = 900" "trackLength ?v = 1000"
    "random ?v (drawn ?v) = 1 / 2"
    by (simp_all add: exampleScene_def exampleHorse_def self_def)
  show ?thesis
    using positioning_catchUpFactor [OF h ok] positioning_catchUpFactor [OF h' ok']
    by (simp add: s a v s' a' v')
qed

subsection \<open>The distance\<close>

lemma handleRaceEvents_eventMultiplier_pos:
  assumes "i < length (horses w)" and "0 < eventMultiplier (self i w)"
  shows "0 < eventMultiplier (self i (handleRaceEvents time delta i w))"
  using assms
  by (simp add: handleRaceEvents_def Let_def self_def modify_def Math_random_def
      split: option.split)

lemma instantRandomFactor_bounds:
  fixes r l :: real
  assumes "0 \<le> r" and "r < 1" and "0 \<le> l" and "l \<le> 0.25"
  shows "0.8 \<le> 1 + (r - 0.5) * (l + 0.15)" and "1 + (r - 0.5) * (l + 0.15) \<le> 1.2"
proof -
  define p where "p = (r - 0.5) * (l + 0.15)"
  have "(- 0.5) * (l + 0.15) \<le> (r - 0.5) * (l + 0.15)"
    using assms(1,3) by (intro mult_right_mono) simp_all
  then have lo: "- 0.5 * l - 0.075 \<le> p"
    unfolding p_def by (simp add: algebra_simps)
  have "(r - 0.5) * (l + 0.15) \<le> 0.5 * (l + 0.15)"
    using assms(2,3) by (intro mult_right_mono) simp_all
  then have hi: "p \<le> 0.5 * l + 0.075"
    unfolding p_def by (simp add: algebra_simps)
  have "0.8 \<le> 1 + p"
    using lo assms(4) by simp
  then show "0.8 \<le> 1 + (r - 0.5) * (l + 0.15)"
    unfolding p_def .
  have "1 + p \<le> 1.2"
    using hi assms(4) by simp
  then show "1 + (r - 0.5) * (l + 0.15) \<le> 1.2"
    unfolding p_def .
qed

lemma moveThis_distance_mono:
  assumes "0 \<le> delta" and "0 \<le> r" and "r < 1"
    and "0 \<le> luckFactor h" and "luckFactor h \<le> 0.25"
    and "0 \<le> catchUpFactor h" and "0 < eventMultiplier h"
  shows "distance h \<le> distance (moveThis delta r w h)"
proof -
  have cs: "0 \<le> currentSpeed (moveThis delta r w h)"
    using moveThis_minRaceSpeed [of h delta r w] assms(6) by simp
  have sf: "(0::real) \<le> max 0.7 (1 - distance h / totalRaceDistance w
      / (stamina h + staminaBoost (lapFactorOf h)))"
    by simp
  have "(0::real) \<le> 0.8"
    by simp
  then have rf: "0 \<le> 1 + (r - 0.5) * (luckFactor h + 0.15)"
    using instantRandomFactor_bounds(1) [OF assms(2-5)] by (rule order_trans)
  have ss: "(0::real) \<le> max 0.7 (min (trackWidth w) (trackHeight w) / 400)"
    by simp
  have "0 \<le> currentSpeed (moveThis delta r w h)
       * max 0.7 (1 - distance h / totalRaceDistance w / (stamina h + staminaBoost (lapFactorOf h)))
       * (1 + (r - 0.5) * (luckFactor h + 0.15)) * eventMultiplier h
       * (delta / 1000) * 80 * max 0.7 (min (trackWidth w) (trackHeight w) / 400)"
    using cs sf rf ss assms(1,7) by (intro mult_nonneg_nonneg) simp_all
  then show ?thesis
    by (subst moveThis_distance) simp
qed

text \<open>The bounds with which the constructor creates a horse still hold when
  line 187 is reached.\<close>

lemma beforeMove_bounds:
  assumes "i < length (horses w)" and "random_ok w" and "0 < trackLength w"
    and "0 \<le> catchUpFactor (self i w)" and "0 < eventMultiplier (self i w)"
  shows "0 \<le> catchUpFactor (self i (beforeMove time delta i w))"
    and "0 < eventMultiplier (self i (beforeMove time delta i w))"
proof -
  let ?w1 = "startLap i w"
  let ?w2 = "handleRaceEvents time delta i ?w1"
  let ?b = "beforeMove time delta i w"
  have l1: "i < length (horses ?w1)"
    using assms(1) keptBy_scene(11) [OF startLap_kept] by simp
  have l2: "i < length (horses ?w2)"
    using l1 keptBy_scene(11) [OF handleRaceEvents_kept] by simp
  have s1: "eraseLap (self i ?w1) = eraseLap (self i w)"
    by (rule keptBy_self [OF startLap_kept assms(1)])
  have s2: "eraseEvents (self i ?w2) = eraseEvents (self i ?w1)"
    by (rule keptBy_self [OF handleRaceEvents_kept l1])
  have s3: "erasePositioning (self i ?b) = erasePositioning (self i ?w2)"
    unfolding beforeMove_def by (rule keptBy_self [OF updateRacePositioningFactors_kept l2])
  have "eventMultiplier (eraseLap (self i ?w1)) = eventMultiplier (eraseLap (self i w))"
    using s1 by simp
  then have "0 < eventMultiplier (self i ?w1)"
    using assms(5) by (simp add: eraseLap_def)
  then have "0 < eventMultiplier (self i ?w2)"
    by (rule handleRaceEvents_eventMultiplier_pos [OF l1])
  moreover have "eventMultiplier (erasePositioning (self i ?b)) =
      eventMultiplier (erasePositioning (self i ?w2))"
    using s3 by simp
  ultimately show "0 < eventMultiplier (self i ?b)"
    by (simp add: erasePositioning_def)
  have "catchUpFactor (eraseLap (self i ?w1)) = catchUpFactor (eraseLap (self i w))"
    using s1 by simp
  moreover have "catchUpFactor (eraseEvents (self i ?w2)) = catchUpFactor (eraseEvents (self i ?w1))"
    using s2 by simp
  ultimately have c2: "0 \<le> catchUpFactor (self i ?w2)"
    using assms(4) by (simp add: eraseLap_def eraseEvents_def)
  have "trackLength ?w2 = trackLength w"
    using keptBy_scene(2) [OF handleRaceEvents_kept] keptBy_scene(2) [OF startLap_kept]
    by simp
  then have t2: "0 < trackLength ?w2"
    using assms(3) by simp
  have "random ?w2 = random w"
    using keptBy_scene(10) [OF handleRaceEvents_kept] keptBy_scene(10) [OF startLap_kept]
    by simp
  then have "0 \<le> random ?w2 (drawn ?w2)"
    using assms(2) by (simp add: random_ok_def)
  then show "0 \<le> catchUpFactor (self i ?b)"
    unfolding beforeMove_def by (rule catchUpFactor_nonneg_after_positioning [OF l2 t2 _ c2])
qed

text \<open>The constructor establishes the bounds, and a tick keeps them.\<close>

lemma initHorse_bounds:
  assumes "random_ok w"
  shows "0 \<le> luckFactor (fst (initHorse laneIndex thisName thisColor w))"
    and "luckFactor (fst (initHorse laneIndex thisName thisColor w)) \<le> 0.25"
    and "catchUpFactor (fst (initHorse laneIndex thisName thisColor w)) = 0"
    and "eventMultiplier (fst (initHorse laneIndex thisName thisColor w)) = 1"
proof -
  have r: "0 \<le> random w (Suc (Suc (Suc (drawn w))))" "random w (Suc (Suc (Suc (drawn w)))) < 1"
    using assms by (simp_all add: random_ok_def)
  have "luckFactor (fst (initHorse laneIndex thisName thisColor w)) =
      random w (Suc (Suc (Suc (drawn w)))) * 0.2 + 0.05"
    by (simp add: initHorse_def Math_random_def Let_def case_prod_beta)
  then show "0 \<le> luckFactor (fst (initHorse laneIndex thisName thisColor w))"
    and "luckFactor (fst (initHorse laneIndex thisName thisColor w)) \<le> 0.25"
    using r by simp_all
  show "catchUpFactor (fst (initHorse laneIndex thisName thisColor w)) = 0"
    and "eventMultiplier (fst (initHorse laneIndex thisName thisColor w)) = 1"
    by (simp_all add: initHorse_def Math_random_def Let_def case_prod_beta)
qed

lemma Horse_bounds:
  assumes "random_ok w"
  shows "0 \<le> luckFactor (fst (Horse generateName laneIndex nm col w))"
    and "luckFactor (fst (Horse generateName laneIndex nm col w)) \<le> 0.25"
    and "catchUpFactor (fst (Horse generateName laneIndex nm col w)) = 0"
    and "eventMultiplier (fst (Horse generateName laneIndex nm col w)) = 1"
proof -
  have ok: "random_ok (snd (resolveColor col (snd (resolveName generateName nm w))))"
    using assms by (simp add: random_ok_def resolve_scene)
  show "0 \<le> luckFactor (fst (Horse generateName laneIndex nm col w))"
    and "luckFactor (fst (Horse generateName laneIndex nm col w)) \<le> 0.25"
    and "catchUpFactor (fst (Horse generateName laneIndex nm col w)) = 0"
    and "eventMultiplier (fst (Horse generateName laneIndex nm col w)) = 1"
    using initHorse_bounds [OF ok]
    by (simp_all add: Horse_def Let_def case_prod_beta)
qed

lemma update_bounds:
  assumes "i < length (horses w)" and "random_ok w" and "0 < trackLength w"
    and "0 \<le> catchUpFactor (self i w)" and "0 < eventMultiplier (self i w)"
  shows "0 \<le> catchUpFactor (self i (update time delta i w))"
    and "0 < eventMultiplier (self i (update time delta i w))"
    and "luckFactor (self i (update time delta i w)) = luckFactor (self i w)"
proof -
  let ?b = "beforeMove time delta i w"
  let ?m = "moveHorse delta i ?b"
  have lb: "i < length (horses ?b)"
    using assms(1) by (simp add: beforeMove_length)
  have lm: "i < length (horses ?m)"
    using lb by (simp add: moveHorse_scene)
  have sm: "eraseMotion (self i ?m) = eraseMotion (self i ?b)"
    by (rule keptBy_self [OF moveHorse_kept lb])
  have sc: "eraseFinish (self i (checkFinish time delta i ?m)) = eraseFinish (self i ?m)"
    by (rule checkFinish_erased [OF lm])
  have lf: "luckFactor (self i ?b) = luckFactor (self i w)"
    by (rule beforeMove_self [OF assms(1)])
      (simp_all add: eraseLap_def eraseEvents_def erasePositioning_def)
  have c: "catchUpFactor (self i (checkFinish time delta i ?m)) = catchUpFactor (self i ?b)"
    using arg_cong [OF sc, of catchUpFactor] arg_cong [OF sm, of catchUpFactor]
    by (simp add: eraseFinish_def eraseMotion_def)
  have e: "eventMultiplier (self i (checkFinish time delta i ?m)) = eventMultiplier (self i ?b)"
    using arg_cong [OF sc, of eventMultiplier] arg_cong [OF sm, of eventMultiplier]
    by (simp add: eraseFinish_def eraseMotion_def)
  have l: "luckFactor (self i (checkFinish time delta i ?m)) = luckFactor (self i ?b)"
    using arg_cong [OF sc, of luckFactor] arg_cong [OF sm, of luckFactor]
    by (simp add: eraseFinish_def eraseMotion_def)
  show "0 \<le> catchUpFactor (self i (update time delta i w))"
    using assms(4) beforeMove_bounds(1) [OF assms, of time delta] c by (simp add: update_def)
  show "0 < eventMultiplier (self i (update time delta i w))"
    using assms(5) beforeMove_bounds(2) [OF assms, of time delta] e by (simp add: update_def)
  show "luckFactor (self i (update time delta i w)) = luckFactor (self i w)"
    using l lf by (simp add: update_def)
qed

text \<open>
  C6. A tick of a racing agent with elapsed time \<open>delta \<ge> 0\<close> does not decrease
  its distance. The agent enters the tick with a luck factor between 0 and 0.25,
  a catch-up factor that is not negative and a positive event multiplier, as the
  constructor creates it and as every tick leaves it; the random numbers lie in
  \<open>[0, 1)\<close> and the track has a positive length.
\<close>

theorem update_distance_mono:
  assumes "i < length (horses w)" and "\<not> finished (self i w)" and "0 \<le> delta"
    and "random_ok w" and "0 < trackLength w"
    and "0 \<le> luckFactor (self i w)" and "luckFactor (self i w) \<le> 0.25"
    and "0 \<le> catchUpFactor (self i w)" and "0 < eventMultiplier (self i w)"
  shows "distance (self i w) \<le> distance (self i (update time delta i w))"
proof -
  let ?b = "beforeMove time delta i w"
  have lb: "i < length (horses ?b)"
    using assms(1) by (simp add: beforeMove_length)
  note bounds = beforeMove_bounds [OF assms(1,4,5,8,9), of time delta]
  have lf: "luckFactor (self i ?b) = luckFactor (self i w)"
    by (rule beforeMove_self [OF assms(1)])
      (simp_all add: eraseLap_def eraseEvents_def erasePositioning_def)
  have db: "distance (self i ?b) = distance (self i w)"
    by (rule beforeMove_self [OF assms(1)])
      (simp_all add: eraseLap_def eraseEvents_def erasePositioning_def)
  have r: "0 \<le> random ?b (drawn ?b)" "random ?b (drawn ?b) < 1"
    using assms(4) by (simp_all add: beforeMove_scene random_ok_def)
  have "distance (self i ?b) \<le> distance (self i (moveHorse delta i ?b))"
    unfolding self_moveHorse [OF lb]
    using assms(3) r assms(6,7) bounds by (intro moveThis_distance_mono) (simp_all add: lf)
  then show ?thesis
    by (simp add: update_self(6) [OF assms(1,2)] db)
qed

theorem update_distance_mono_witness:
  "distance (self 1 (exampleScene [exampleHorse 950, exampleHorse 900]))
     \<le> distance (self 1 (update 2000 16 1 (exampleScene [exampleHorse 950, exampleHorse 900])))
   \<and> distance (self 1 (exampleScene [exampleHorse 950, exampleHorse 900])) = 900"
proof -
  let ?w = "exampleScene [exampleHorse 950, exampleHorse 900]"
  have h: "1 < length (horses ?w)" "\<not> finished (self 1 ?w)" "(0::real) \<le> 16"
    "random_ok ?w" "0 < trackLength ?w"
    "0 \<le> luckFactor (self 1 ?w)" "luckFactor (self 1 ?w) \<le> 0.25"
    "0 \<le> catchUpFactor (self 1 ?w)" "0 < eventMultiplier (self 1 ?w)"
    by (simp_all add: exampleScene_def exampleHorse_def self_def random_ok_def)
  have d: "distance (self 1 ?w) = 900"
    by (simp add: exampleScene_def exampleHorse_def self_def)
  show ?thesis
    using update_distance_mono [OF h, of 2000] d by simp
qed

subsection \<open>The momentum\<close>

lemma decayMomentum_power:
  assumes "\<forall>k<n. \<bar>m\<bar> * 0.995 ^ k > 0.01"
  shows "(decayMomentum ^^ n) m = m * 0.995 ^ n"
  using assms
proof (induction n)
  case 0
  then show ?case by simp
next
  case (Suc n)
  then have ih: "(decayMomentum ^^ n) m = m * 0.995 ^ n"
    by simp
  have "\<bar>m\<bar> * 0.995 ^ n > 0.01"
    using Suc.prems by simp
  then have above: "\<bar>m * 0.995 ^ n\<bar> > 0.01"
    by (simp add: abs_mult)
  have "(decayMomentum ^^ Suc n) m = decayMomentum (m * 0.995 ^ n)"
    by (simp add: ih)
  also have "\<dots> = m * 0.995 ^ n * 0.995"
    using above by (simp add: decayMomentum_def)
  finally show ?case
    by simp
qed

lemma decayMomentum_snap:
  assumes "\<forall>k<n. \<bar>m\<bar> * 0.995 ^ k > 0.01" and "\<bar>m\<bar> * 0.995 ^ n \<le> 0.01"
  shows "(decayMomentum ^^ Suc n) m = 0"
proof -
  have below: "\<bar>m * 0.995 ^ n\<bar> \<le> 0.01"
    using assms(2) by (simp add: abs_mult)
  have "(decayMomentum ^^ Suc n) m = decayMomentum (m * 0.995 ^ n)"
    by (simp add: decayMomentum_power [OF assms(1)])
  also have "\<dots> = 0"
    using below by (simp add: decayMomentum_def)
  finally show ?thesis .
qed

lemma ticks_length: "length (horses (ticks fs i w)) = length (horses w)"
  by (induction fs i w rule: ticks.induct) (simp_all add: update_scene)

lemma ticks_momentum:
  assumes "i < length (horses w)" and "undisturbed fs i w"
  shows "momentum (self i (ticks fs i w)) = (decayMomentum ^^ length fs) (momentum (self i w))"
  using assms
proof (induction fs i w rule: ticks.induct)
  case (1 i w)
  then show ?case by simp
next
  case (2 time delta fs i w)
  have racing: "\<not> finished (self i w)"
    and quiet: "momentum (self i (beforeMove time delta i w)) = momentum (self i w)"
    and rest: "undisturbed fs i (update time delta i w)"
    using "2.prems"(2) by simp_all
  have "i < length (horses (update time delta i w))"
    using "2.prems"(1) by (simp add: update_scene)
  then have "momentum (self i (ticks fs i (update time delta i w))) =
      (decayMomentum ^^ length fs) (momentum (self i (update time delta i w)))"
    using rest by (rule "2.IH")
  then show ?case
    by (simp add: update_self(5) [OF "2.prems"(1) racing] quiet funpow_swap1)
qed

text \<open>
  C7. In a tick of a racing agent, lines 191-196 multiply the momentum by 0.995
  when its absolute value is above 0.01 and set it to 0 otherwise, and nothing
  later in the tick writes it. Over \<open>n\<close> undisturbed ticks a momentum \<open>m\<close> becomes
  \<open>m \<times> 0.995\<^sup>n\<close> as long as it was above the threshold at the start of each of
  them, and the first tick that finds it at or below the threshold makes it 0.
\<close>

theorem momentum_decay:
  assumes "i < length (horses w)"
  shows "(\<not> finished (self i w) \<longrightarrow>
            momentum (self i (update time delta i w)) =
              (if \<bar>momentum (self i (beforeMove time delta i w))\<bar> > 0.01
               then momentum (self i (beforeMove time delta i w)) * 0.995 else 0))
       \<and> (undisturbed fs i w \<and> (\<forall>k<length fs. \<bar>momentum (self i w)\<bar> * 0.995 ^ k > 0.01) \<longrightarrow>
            momentum (self i (ticks fs i w)) = momentum (self i w) * 0.995 ^ length fs)
       \<and> (undisturbed (fs @ [(time, delta)]) i w
            \<and> (\<forall>k<length fs. \<bar>momentum (self i w)\<bar> * 0.995 ^ k > 0.01)
            \<and> \<bar>momentum (self i w)\<bar> * 0.995 ^ length fs \<le> 0.01 \<longrightarrow>
            momentum (self i (ticks (fs @ [(time, delta)]) i w)) = 0)"
proof -
  have one: "momentum (self i (update time delta i w)) =
      (if \<bar>momentum (self i (beforeMove time delta i w))\<bar> > 0.01
       then momentum (self i (beforeMove time delta i w)) * 0.995 else 0)"
    if "\<not> finished (self i w)"
    using update_self(5) [OF assms that, of time delta] by (simp add: decayMomentum_def)
  have many: "momentum (self i (ticks fs i w)) = momentum (self i w) * 0.995 ^ length fs"
    if "undisturbed fs i w" and "\<forall>k<length fs. \<bar>momentum (self i w)\<bar> * 0.995 ^ k > 0.01"
    using ticks_momentum [OF assms that(1)] decayMomentum_power [OF that(2)] by simp
  have snap: "momentum (self i (ticks (fs @ [(time, delta)]) i w)) = 0"
    if "undisturbed (fs @ [(time, delta)]) i w"
      and "\<forall>k<length fs. \<bar>momentum (self i w)\<bar> * 0.995 ^ k > 0.01"
      and "\<bar>momentum (self i w)\<bar> * 0.995 ^ length fs \<le> 0.01"
    using ticks_momentum [OF assms that(1)] decayMomentum_snap [OF that(2,3)] by simp
  show ?thesis
    using one many snap by blast
qed

lemmas tick_evaluation =
  update_def checkFinish_def finishRace_def finishWindow_def moveHorse_def moveThis_def
  beforeMove_def startLap_def handleRaceEvents_def updateRacePositioningFactors_def
  applyFinalLapBalancing_def lapFactorOf_def lookupLapFactor_def decayMomentum_def js_rem_def
  truthy_def sortedHorses_def activeHorses_def self_def modify_def Math_random_def Let_def
  exampleScene_def exampleHorse_def upt_rec

theorem momentum_decay_witness:
  "momentum (self 0 (update 2016 16 0
      (exampleScene [(exampleHorse 100)\<lparr>momentum := 0.01004\<rparr>]))) = 0.01004 * 0.995
   \<and> momentum (self 0 (ticks [(2000, 16)] 0
      (exampleScene [(exampleHorse 100)\<lparr>momentum := 0.01004\<rparr>]))) = 0.01004 * 0.995
   \<and> momentum (self 0 (ticks [(2000, 16), (2016, 16)] 0
      (exampleScene [(exampleHorse 100)\<lparr>momentum := 0.01004\<rparr>]))) = 0"
proof -
  let ?w = "exampleScene [(exampleHorse 100)\<lparr>momentum := 0.01004\<rparr>]"
  have l: "0 < length (horses ?w)"
    by (simp add: exampleScene_def)
  have r: "\<not> finished (self 0 ?w)"
    by (simp add: exampleScene_def exampleHorse_def self_def)
  have m: "momentum (self 0 ?w) = 0.01004"
    by (simp add: exampleScene_def exampleHorse_def self_def)
  have b: "momentum (self 0 (beforeMove 2016 16 0 ?w)) = 0.01004"
    by (simp add: tick_evaluation)
  have u: "undisturbed [(2000, 16), (2016, 16)] 0 ?w"
    by (simp add: tick_evaluation)
  then have u1: "undisturbed [(2000, 16)] 0 ?w"
    by simp
  have above: "\<forall>k<length [(2000::real, 16::real)]. \<bar>momentum (self 0 ?w)\<bar> * 0.995 ^ k > 0.01"
    using m by simp
  have below: "\<bar>momentum (self 0 ?w)\<bar> * 0.995 ^ length [(2000::real, 16::real)] \<le> 0.01"
    using m by simp
  show ?thesis
    using momentum_decay [OF l, of 2016 16 "[(2000, 16)]"] r u u1 above below b m
    by simp
qed

end
